theory Spec2Isabelle
  imports Complex_Main "HOL-Library.Char_ord" "HOL-Library.List_Lexorder" "HOL-Library.AList"
begin

section \<open>Python values, exceptions and containers\<close>

text \<open>
  The model follows \<^verbatim>\<open>radd/CORE.py\<close> (class \<^verbatim>\<open>RADDCore\<close>) and
  \<^verbatim>\<open>radd/tools/utils.py\<close>. A method of the class is a function from the object's
  state to either the exception it raises (\<open>Inl\<close>) or the state it leaves (\<open>Inr\<close>).
  Python 3 semantics are taken for comparisons between values of different types.
  \<open>ConfigurationError\<close> is the exception the specification names; no statement of the
  two source files raises it, it is here so that the claims about it can be stated.
\<close>

datatype py_error =
    ValueError | KeyError | IndexError | TypeError | NameError
  | ZeroDivisionError | AttributeError | ConfigurationError

definition bind_e :: "'e + 'a \<Rightarrow> ('a \<Rightarrow> 'e + 'b) \<Rightarrow> 'e + 'b" where
  "bind_e m f = (case m of Inl e \<Rightarrow> Inl e | Inr x \<Rightarrow> f x)"

text \<open>A list comprehension or \<^verbatim>\<open>for\<close> loop whose body may raise: the first exception ends it.\<close>

fun map_e :: "('a \<Rightarrow> 'e + 'b) \<Rightarrow> 'a list \<Rightarrow> 'e + 'b list" where
  "map_e f [] = Inr []"
| "map_e f (x # xs) =
     (case f x of
        Inl e \<Rightarrow> Inl e
      | Inr y \<Rightarrow> (case map_e f xs of Inl e \<Rightarrow> Inl e | Inr ys \<Rightarrow> Inr (y # ys)))"

text \<open>\<^verbatim>\<open>xs[i]\<close> on a Python list: indices \<open>-len .. -1\<close> count from the end, anything
  outside \<open>-len .. len-1\<close> raises IndexError.\<close>

definition py_getitem :: "'a list \<Rightarrow> int \<Rightarrow> py_error + 'a" where
  "py_getitem xs i =
     (if 0 \<le> i \<and> i < int (length xs) then Inr (xs ! nat i)
      else if - int (length xs) \<le> i \<and> i < 0 then Inr (xs ! nat (int (length xs) + i))
      else Inl IndexError)"

text \<open>\<^verbatim>\<open>d[k]\<close> on a dict.\<close>

definition py_lookup :: "('k \<rightharpoonup> 'v) \<Rightarrow> 'k \<Rightarrow> py_error + 'v" where
  "py_lookup d k = (case d k of None \<Rightarrow> Inl KeyError | Some v \<Rightarrow> Inr v)"

text \<open>\<^verbatim>\<open>str(n)\<close> of an integer: its decimal digits, with a minus sign when negative.\<close>

definition digit_char :: "nat \<Rightarrow> char" where
  "digit_char d = ''0123456789'' ! d"

fun str_nat :: "nat \<Rightarrow> string" where
  "str_nat n = (if n < 10 then [digit_char n] else str_nat (n div 10) @ [digit_char (n mod 10)])"

declare str_nat.simps [simp del]

definition str_int :: "int \<Rightarrow> string" where
  "str_int i = (if i < 0 then CHR ''-'' # str_nat (nat (- i)) else str_nat (nat i))"

text \<open>\<^verbatim>\<open>sep.join(parts)\<close>.\<close>

fun py_join :: "string \<Rightarrow> string list \<Rightarrow> string" where
  "py_join sep [] = []"
| "py_join sep [s] = s"
| "py_join sep (s # t # ts) = s @ sep @ py_join sep (t # ts)"

text \<open>\<^verbatim>\<open>itertools.product(*pools)\<close>, as the Python documentation defines it: start from
  the one empty tuple and, pool by pool, extend every tuple built so far by every element of
  the pool (\<^verbatim>\<open>result = [x+[y] for x in result for y in pool]\<close>).\<close>

definition product_step :: "'a list \<Rightarrow> 'a list list \<Rightarrow> 'a list list" where
  "product_step pool result = concat (map (\<lambda>x. map (\<lambda>y. x @ [y]) pool) result)"

definition itertools_product :: "'a list list \<Rightarrow> 'a list list" where
  "itertools_product pools = fold product_step pools [[]]"

text \<open>numpy's 64-bit integers wrap around silently in array arithmetic.\<close>

definition int64 :: "int \<Rightarrow> int" where
  "int64 x = signed_take_bit 63 x"

text \<open>\<^verbatim>\<open>np.cumprod\<close> of an int64 array: the running products, each step in int64.\<close>

fun cumprod_from :: "int \<Rightarrow> int list \<Rightarrow> int list" where
  "cumprod_from acc [] = []"
| "cumprod_from acc (x # xs) = int64 (acc * x) # cumprod_from (int64 (acc * x)) xs"

definition np_cumprod :: "int list \<Rightarrow> int list" where
  "np_cumprod xs = cumprod_from 1 xs"

text \<open>A float is modelled by the real number it stands for, or NaN. Floats are only stored,
  compared with 1, halved, divided and averaged here.\<close>

datatype npfloat = Num real | NaN

text \<open>\<^verbatim>\<open>int(x)\<close> of a float: truncation towards zero.\<close>

definition py_int :: "real \<Rightarrow> int" where
  "py_int r = (if 0 \<le> r then \<lfloor>r\<rfloor> else \<lceil>r\<rceil>)"

text \<open>A two-dimensional numpy array: its shape \<open>(shape0, shape1)\<close> and its rows.\<close>

record matrix =
  shape0 :: nat
  shape1 :: nat
  mrows :: "npfloat list list"

definition np_mean :: "npfloat list \<Rightarrow> npfloat" where
  "np_mean xs =
     (if xs = [] \<or> NaN \<in> set xs then NaN
      else Num (sum_list (map (\<lambda>x. case x of Num r \<Rightarrow> r | NaN \<Rightarrow> 0) xs) / real (length xs)))"

text \<open>\<^verbatim>\<open>np.mean(m, axis=0, keepdims=True)\<close>: one row holding the mean of every column.\<close>

definition mean_axis0 :: "matrix \<Rightarrow> matrix" where
  "mean_axis0 m =
     \<lparr>shape0 = 1, shape1 = shape1 m,
      mrows = [map (\<lambda>j. np_mean (map (\<lambda>row. row ! j) (mrows m))) [0..<shape1 m]]\<rparr>"

text \<open>\<^verbatim>\<open>m[:, 1:]\<close>: every row without its first column.\<close>

definition drop_first_column :: "matrix \<Rightarrow> matrix" where
  "drop_first_column m = \<lparr>shape0 = shape0 m, shape1 = shape1 m - 1, mrows = map tl (mrows m)\<rparr>"

section \<open>The data of a model object\<close>

text \<open>A column of the trial table holds integers or strings; a subject identifier likewise.\<close>

datatype column = IntCol "int list" | StrCol "string list"

datatype ident = IntId int | StrId string

definition str_ident :: "ident \<Rightarrow> string" where
  "str_ident x = (case x of IntId i \<Rightarrow> str_int i | StrId s \<Rightarrow> s)"

record dataframe =
  nrows :: nat
  cols :: "string \<rightharpoonup> column"

text \<open>\<^verbatim>\<open>depends_on\<close>: parameter name to one factor name or a list of factor names, in the
  dict's order.\<close>

datatype dep = Factor string | Factors "string list"

type_synonym depends = "(string \<times> dep) list"

text \<open>\<^verbatim>\<open>clmap\<close> (factor to levels) and \<^verbatim>\<open>pcmap\<close> (parameter to names): dicts kept in
  insertion order, read with \<open>map_of\<close>.\<close>

type_synonym levelmap = "(string \<times> string list) list"

text \<open>The values a \<^verbatim>\<open>fitparams\<close> or \<^verbatim>\<open>basinparams\<close> entry or a keyword argument can hold.\<close>

datatype fpval =
    NoneV
  | IntV int
  | FloatV real
  | BoolV bool
  | StrV string
  | ArrV "real list"
  | InitsV "(string \<times> real) list"
  | LevelsV levelmap
  | DependsV depends
  | SsdInfoV matrix int int int "int list list"

type_synonym params = "string \<rightharpoonup> fpval"

type_synonym kwargs = "(string \<times> fpval) list"

text \<open>The \<^verbatim>\<open>DataHandler\<close> object as far as \<^verbatim>\<open>RADDCore\<close> reads it. \<open>'f\<close> is the type of the
  stop-signal-delay table \<^verbatim>\<open>ssdDF\<close>; a handler without one is \<open>None\<close>. The other tables
  of the handler (\<^verbatim>\<open>observedDF\<close>, \<^verbatim>\<open>yhatdf\<close>, \<^verbatim>\<open>fitdf\<close>, ...) are copied by the source
  and read by none of the methods below; they are left out.\<close>

record 'f handler =
  hd_pcmap :: levelmap
  hd_ssd_method :: fpval
  hd_observed :: "real list list"
  hd_observed_flat :: "real list list"
  hd_cond_wts :: "real list list"
  hd_flat_wts :: "real list list"
  hd_ssdDF :: "'f option"

text \<open>The attributes of a \<^verbatim>\<open>RADDCore\<close> object. An attribute the source tests with
  \<^verbatim>\<open>hasattr\<close> is an option (\<open>None\<close>: the attribute does not exist); \<open>'o\<close> is the type of
  the optimizer object (\<^verbatim>\<open>self.sim\<close> is always \<^verbatim>\<open>self.opt.sim\<close> and is not kept apart).
  \<^verbatim>\<open>self.inits\<close> and \<^verbatim>\<open>self.quantiles\<close> hold whatever the caller passed.\<close>

record ('f, 'o) model =
  kind :: string
  fit_on :: string
  learn :: bool
  ssdelay :: bool
  quantiles :: fpval
  tb :: real
  data :: dataframe
  idx :: "ident list"
  nidx :: int
  inits :: fpval
  depends_on :: depends
  conds :: "string list"
  nconds :: int
  is_flat :: bool
  clmap :: levelmap
  cond_matrix :: "int list"
  nlevels :: int
  groups :: "string list"
  pcmap :: levelmap
  model_id :: string
  handler :: "'f handler option"
  observed :: "real list list"
  observed_flat :: "real list list"
  cond_wts :: "real list list"
  flat_wts :: "real list list"
  ssdDF :: "'f option"
  ssd :: "matrix option"
  fitparams :: "params option"
  basinparams :: "params option"
  opt :: "'o option"

text \<open>What the methods call outside the two source files: the pandas group-by of the
  stop-signal-delay table, the \<^verbatim>\<open>DataHandler\<close>, \<^verbatim>\<open>theta.get_default_inits\<close> and the
  \<^verbatim>\<open>Optimizer\<close>. They are parameters of the model.
  \<^item> \<open>groupby_mean_all df conds\<close> is \<^verbatim>\<open>df.drop('idx', axis=1).groupby(conds).mean().values\<close>;
  \<^item> \<open>groupby_mean_subject df i conds\<close> is \<^verbatim>\<open>df[df['idx'] == i].groupby(conds).mean().values\<close>;
  \<^item> \<open>data_handler m\<close> is \<^verbatim>\<open>DataHandler(m)\<close> after its \<^verbatim>\<open>make_dataframes()\<close>;
  \<^item> \<open>new_optimizer\<close> is the constructor \<^verbatim>\<open>Optimizer(fitparams, basinparams, inits)\<close>, and
    \<open>optimizer_update_fit\<close>, \<open>optimizer_update_basin\<close> are \<^verbatim>\<open>opt.update(...)\<close> with the
    keywords the source passes.\<close>

record ('f, 'o) collaborators =
  groupby_mean_all :: "'f \<Rightarrow> string list \<Rightarrow> py_error + matrix"
  groupby_mean_subject :: "'f \<Rightarrow> ident \<Rightarrow> string list \<Rightarrow> py_error + matrix"
  data_handler :: "('f, 'o) model \<Rightarrow> py_error + 'f handler"
  default_inits :: "string \<Rightarrow> depends \<Rightarrow> bool \<Rightarrow> bool \<Rightarrow> fpval"
  new_optimizer :: "params \<Rightarrow> params \<Rightarrow> fpval \<Rightarrow> 'o"
  optimizer_update_fit :: "params \<Rightarrow> fpval \<Rightarrow> 'o \<Rightarrow> 'o"
  optimizer_update_basin :: "params \<Rightarrow> 'o \<Rightarrow> 'o"

section \<open>Reading and writing \<^verbatim>\<open>fitparams\<close>\<close>

text \<open>\<^verbatim>\<open>self.fitparams[k]\<close> raises KeyError for a missing key, \<^verbatim>\<open>self.fitparams.k\<close>
  AttributeError; both raise AttributeError when the object has no \<^verbatim>\<open>fitparams\<close> yet.\<close>

definition fp_item :: "('f, 'o) model \<Rightarrow> string \<Rightarrow> py_error + fpval" where
  "fp_item s k = (case fitparams s of None \<Rightarrow> Inl AttributeError | Some fp \<Rightarrow> py_lookup fp k)"

definition fp_attr :: "('f, 'o) model \<Rightarrow> string \<Rightarrow> py_error + fpval" where
  "fp_attr s k =
     (case fitparams s of
        None \<Rightarrow> Inl AttributeError
      | Some fp \<Rightarrow> (case fp k of None \<Rightarrow> Inl AttributeError | Some v \<Rightarrow> Inr v))"

definition fp_set :: "string \<Rightarrow> fpval \<Rightarrow> ('f, 'o) model \<Rightarrow> py_error + ('f, 'o) model" where
  "fp_set k v s =
     (case fitparams s of
        None \<Rightarrow> Inl AttributeError
      | Some fp \<Rightarrow> Inr (s\<lparr>fitparams := Some (fp(k \<mapsto> v))\<rparr>))"

text \<open>A value used as a list index.\<close>

definition py_index :: "fpval \<Rightarrow> py_error + int" where
  "py_index v =
     (case v of IntV i \<Rightarrow> Inr i | BoolV b \<Rightarrow> Inr (if b then 1 else 0) | _ \<Rightarrow> Inl TypeError)"

definition py_getitem_v :: "'a list \<Rightarrow> fpval \<Rightarrow> py_error + 'a" where
  "py_getitem_v xs v = bind_e (py_index v) (py_getitem xs)"

text \<open>The truth value of a one-dimensional array of booleans in an \<^verbatim>\<open>if\<close>.\<close>

definition array_truth :: "bool list \<Rightarrow> py_error + bool" where
  "array_truth bs = (case bs of [] \<Rightarrow> Inr False | [b] \<Rightarrow> Inr b | _ \<Rightarrow> Inl ValueError)"

text \<open>\<^verbatim>\<open>if v > 1\<close> and \<^verbatim>\<open>if v == 1\<close>.\<close>

definition py_gt_one :: "fpval \<Rightarrow> py_error + bool" where
  "py_gt_one v =
     (case v of
        IntV n \<Rightarrow> Inr (1 < n)
      | FloatV r \<Rightarrow> Inr (1 < r)
      | BoolV b \<Rightarrow> Inr False
      | ArrV a \<Rightarrow> array_truth (map (\<lambda>r. 1 < r) a)
      | _ \<Rightarrow> Inl TypeError)"

definition py_eq_one :: "fpval \<Rightarrow> py_error + bool" where
  "py_eq_one v =
     (case v of
        IntV n \<Rightarrow> Inr (n = 1)
      | FloatV r \<Rightarrow> Inr (r = 1)
      | BoolV b \<Rightarrow> Inr b
      | ArrV a \<Rightarrow> array_truth (map (\<lambda>r. r = 1) a)
      | _ \<Rightarrow> Inr False)"

text \<open>\<^verbatim>\<open>int(.5 * v)\<close>.\<close>

definition py_half_int :: "fpval \<Rightarrow> py_error + int" where
  "py_half_int v =
     (case v of
        IntV n \<Rightarrow> Inr (py_int (real_of_int n / 2))
      | FloatV r \<Rightarrow> Inr (py_int (r / 2))
      | BoolV b \<Rightarrow> Inr 0
      | ArrV a \<Rightarrow> (case a of [r] \<Rightarrow> Inr (py_int (r / 2)) | _ \<Rightarrow> Inl TypeError)
      | _ \<Rightarrow> Inl TypeError)"

definition fpval_of_ident :: "ident \<Rightarrow> fpval" where
  "fpval_of_ident x = (case x of IntId i \<Rightarrow> IntV i | StrId s \<Rightarrow> StrV s)"

section \<open>\<^verbatim>\<open>RADDCore.__format_pcmap__\<close>\<close>

text \<open>One pass of the loop body: the names of parameter \<open>p\<close>.\<close>

definition param_clevels :: "levelmap \<Rightarrow> string \<Rightarrow> dep \<Rightarrow> py_error + string list" where
  "param_clevels cl p cs =
     bind_e
       (case cs of
          Factors fs \<Rightarrow>
            bind_e (map_e (py_lookup (map_of cl)) fs)
              (\<lambda>levels. Inr (map (py_join ''_'') (itertools_product levels)))
        | Factor f \<Rightarrow> py_lookup (map_of cl) f)
       (\<lambda>clevels. Inr (map (\<lambda>clvl. p @ ''_'' @ clvl) clevels))"

fun pcmap_loop :: "levelmap \<Rightarrow> depends \<Rightarrow> levelmap \<Rightarrow> py_error + levelmap" where
  "pcmap_loop cl [] pc = Inr pc"
| "pcmap_loop cl ((p, cs) # rest) pc =
     bind_e (param_clevels cl p cs) (\<lambda>names. pcmap_loop cl rest (AList.update p names pc))"

definition format_pcmap :: "('f, 'o) model \<Rightarrow> py_error + ('f, 'o) model" where
  "format_pcmap s =
     bind_e (pcmap_loop (clmap s) (depends_on s) [])
       (\<lambda>pc. Inr (s\<lparr>pcmap := pc,
                     handler := map_option (\<lambda>h. h\<lparr>hd_pcmap := pc\<rparr>) (handler s)\<rparr>))"

section \<open>\<^verbatim>\<open>RADDCore.generate_model_id\<close>\<close>

definition generate_model_id :: "string option \<Rightarrow> ('f, 'o) model \<Rightarrow> ('f, 'o) model" where
  "generate_model_id appendstr s =
     (let keys = map fst (depends_on s);
          names = kind s # (if ''all'' \<in> set keys then [''flat''] else keys);
          names = names @ [if fit_on s = ''subjects'' then ''idx'' else ''avg''];
          names = (case appendstr of None \<Rightarrow> names | Some a \<Rightarrow> names @ [a]);
          new_id = py_join ''_'' names
      in s\<lparr>model_id := new_id,
            fitparams := map_option (\<lambda>fp. fp(''model_id'' \<mapsto> StrV new_id)) (fitparams s)\<rparr>)"

section \<open>\<^verbatim>\<open>RADDCore.__set_ssd_info__\<close>\<close>

text \<open>The stop-signal-delay matrix of the branch taken: over all subjects, or of the active
  subject (which is also stored in \<^verbatim>\<open>self.ssd\<close>).\<close>

definition ssd_matrix ::
  "('f, 'o) collaborators \<Rightarrow> 'f \<Rightarrow> ('f, 'o) model \<Rightarrow> py_error + matrix \<times> ('f, 'o) model" where
  "ssd_matrix ext df s =
     (if fit_on s = ''average'' then
        bind_e (groupby_mean_all ext df (conds s)) (\<lambda>m. Inr (m, s))
      else
        bind_e (fp_item s ''ix'') (\<lambda>ix.
        bind_e (py_getitem_v (idx s) ix) (\<lambda>subject.
        bind_e (groupby_mean_subject ext df subject (conds s)) (\<lambda>m.
          Inr (drop_first_column m, s\<lparr>ssd := Some (drop_first_column m)\<rparr>)))))"

text \<open>\<^verbatim>\<open>np.arange(nssd) * np.ones((ssd.shape[0], ssd.shape[-1])).astype(np.int)\<close>, for the
  numpy versions in which \<^verbatim>\<open>np.int\<close> is \<^verbatim>\<open>int\<close>.\<close>

definition ssd_index_grid :: "matrix \<Rightarrow> int list list" where
  "ssd_index_grid m = replicate (shape0 m) (map int [0..<shape1 m])"

definition set_ssd_info ::
  "('f, 'o) collaborators \<Rightarrow> ('f, 'o) model \<Rightarrow> py_error + ('f, 'o) model" where
  "set_ssd_info ext s =
     (case ssdDF s of
        None \<Rightarrow> Inl AttributeError
      | Some df \<Rightarrow>
          bind_e (ssd_matrix ext df s) (\<lambda>(m, s).
          bind_e (fp_attr s ''nlevels'') (\<lambda>nl.
          bind_e (py_eq_one nl) (\<lambda>single.
            let m = (if single then mean_axis0 m else m);
                nssd = int (shape1 m)
            in
              bind_e (fp_attr s ''ntrials'') (\<lambda>ntrials.
              bind_e (py_half_int ntrials) (\<lambda>nss.
                if nssd = 0 then Inl ZeroDivisionError
                else
                  fp_set ''ssd_info''
                    (SsdInfoV m nssd nss (py_int (real_of_int nss / real_of_int nssd))
                       (ssd_index_grid m)) s))))))"

section \<open>\<^verbatim>\<open>RADDCore.update_data\<close>\<close>

definition update_data :: "fpval \<Rightarrow> ('f, 'o) model \<Rightarrow> py_error + ('f, 'o) model" where
  "update_data nl s =
     bind_e (fp_item s ''ix'') (\<lambda>i.
     bind_e (py_gt_one nl) (\<lambda>conditional.
     bind_e (if conditional then py_getitem_v (observed s) i else py_getitem_v (observed_flat s) i) (\<lambda>y.
     bind_e (fp_set ''y'' (ArrV y) s) (\<lambda>s.
     bind_e (if conditional then py_getitem_v (cond_wts s) i else py_getitem_v (flat_wts s) i) (\<lambda>w.
     bind_e (fp_set ''wts'' (ArrV w) s) (\<lambda>s.
       if fit_on s = ''subjects'' then
         bind_e (py_getitem_v (idx s) i) (\<lambda>subject. fp_set ''idx'' (StrV (str_ident subject)) s)
       else fp_set ''idx'' (StrV ''avg'') s))))))"

section \<open>\<^verbatim>\<open>RADDCore.set_fitparams\<close> and \<^verbatim>\<open>RADDCore.set_basinparams\<close>\<close>

text \<open>The record built when the object has no \<^verbatim>\<open>fitparams\<close> yet. The float literals
  \<^verbatim>\<open>.1\<close>, \<^verbatim>\<open>.002\<close> and \<^verbatim>\<open>1.e-30\<close> are written as the decimals they denote.\<close>

definition default_fitparams :: "('f, 'o) model \<Rightarrow> py_error + params" where
  "default_fitparams s =
     (case handler s of
        None \<Rightarrow> Inl AttributeError
      | Some h \<Rightarrow>
          bind_e (py_getitem (idx s) 0) (\<lambda>first.
            Inr (map_of
              [(''ix'', IntV 0),
               (''ntrials'', IntV 20000),
               (''si'', FloatV (1 / 10)),
               (''dt'', FloatV (2 / 1000)),
               (''tol'', FloatV (1 / 10 ^ 30)),
               (''method'', StrV ''nelder''),
               (''maxfev'', IntV 450),
               (''maxiter'', IntV 450),
               (''kind'', StrV (kind s)),
               (''clmap'', LevelsV (clmap s)),
               (''pcmap'', LevelsV (pcmap s)),
               (''depends_on'', DependsV (depends_on s)),
               (''ssd_method'', hd_ssd_method h),
               (''quantiles'', quantiles s),
               (''fit_on'', StrV (fit_on s)),
               (''model_id'', StrV (model_id s)),
               (''learn'', BoolV (learn s)),
               (''inits'', inits s),
               (''nlevels'', IntV 1),
               (''nidx'', IntV (nidx s)),
               (''idx'', fpval_of_ident first),
               (''tb'', FloatV (tb s))])))"

text \<open>\<^verbatim>\<open>for kw_arg, kw_val in kwargs.items(): d[kw_arg] = kw_val\<close>.\<close>

definition fill_kwargs :: "kwargs \<Rightarrow> params \<Rightarrow> params" where
  "fill_kwargs kw d = fold (\<lambda>(k, v) m. m(k \<mapsto> v)) kw d"

text \<open>Lines 128 to 157: build the default record, or fill the existing one with the keywords.\<close>

definition fill_fitparams :: "kwargs \<Rightarrow> ('f, 'o) model \<Rightarrow> py_error + ('f, 'o) model" where
  "fill_fitparams kw s =
     (case fitparams s of
        None \<Rightarrow> bind_e (default_fitparams s) (\<lambda>fp. Inr (s\<lparr>fitparams := Some fp\<rparr>))
      | Some fp \<Rightarrow> Inr (s\<lparr>fitparams := Some (fill_kwargs kw fp)\<rparr>))"

text \<open>Lines 168 to 171: \<^verbatim>\<open>force\<close>.\<close>

definition apply_force :: "string option \<Rightarrow> ('f, 'o) model \<Rightarrow> py_error + ('f, 'o) model" where
  "apply_force force s =
     (if force = Some ''cond'' then fp_set ''nlevels'' (IntV (nlevels s)) s
      else if force = Some ''flat'' then fp_set ''nlevels'' (IntV 1) s
      else Inr s)"

text \<open>Lines 173 to 179: reselect the data, recompute \<^verbatim>\<open>ssd_info\<close>, update the optimizer.\<close>

definition finish_fitparams ::
  "('f, 'o) collaborators \<Rightarrow> ('f, 'o) model \<Rightarrow> py_error + ('f, 'o) model" where
  "finish_fitparams ext s =
     bind_e (fp_attr s ''nlevels'') (\<lambda>nl.
     bind_e (update_data nl s) (\<lambda>s.
     bind_e (if ssdDF s \<noteq> None then set_ssd_info ext s else Inr s) (\<lambda>s.
       case opt s of
         None \<Rightarrow> Inr s
       | Some ob \<Rightarrow>
           bind_e (fp_attr s ''inits'') (\<lambda>ini.
             case fitparams s of
               None \<Rightarrow> Inl AttributeError
             | Some fp \<Rightarrow> Inr (s\<lparr>opt := Some (optimizer_update_fit ext fp ini ob)\<rparr>)))))"

text \<open>\<^verbatim>\<open>set_fitparams(force, **kwargs)\<close> for keywords that name neither \<^verbatim>\<open>quantiles\<close> nor
  \<^verbatim>\<open>depends_on\<close>: the two \<^verbatim>\<open>if\<close> statements of lines 159 to 167 are skipped. The calls
  of \<^verbatim>\<open>set_fitparams\<close> inside \<^verbatim>\<open>set_conditions\<close> and \<^verbatim>\<open>__prepare_fit__\<close> are of this
  kind, which is what ends the recursion between the three methods.\<close>

definition set_fitparams_plain ::
  "('f, 'o) collaborators \<Rightarrow> string option \<Rightarrow> kwargs \<Rightarrow> ('f, 'o) model \<Rightarrow> py_error + ('f, 'o) model" where
  "set_fitparams_plain ext force kw s =
     bind_e (fill_fitparams kw s) (\<lambda>s.
     bind_e (apply_force force s) (finish_fitparams ext))"



section \<open>\<^verbatim>\<open>RADDCore.set_conditions\<close>\<close>

text \<open>\<^verbatim>\<open>np.hstack(listvalues(depends_on))\<close>: each value as a one-dimensional array, all of
  them concatenated; numpy raises ValueError when there is no array at all.
  \<^verbatim>\<open>np.unique(...)\<close>: the distinct entries, sorted.\<close>

definition dep_factors :: "dep \<Rightarrow> string list" where
  "dep_factors d = (case d of Factor f \<Rightarrow> [f] | Factors fs \<Rightarrow> fs)"

definition np_hstack :: "'a list list \<Rightarrow> py_error + 'a list" where
  "np_hstack arrays = (if arrays = [] then Inl ValueError else Inr (concat arrays))"

definition np_unique :: "'a::linorder list \<Rightarrow> 'a list" where
  "np_unique xs = sort (remdups xs)"

text \<open>\<^verbatim>\<open>data['flat'] = 'flat'\<close>: a column holding \<^verbatim>\<open>'flat'\<close> in every row.\<close>

definition inject_flat :: "dataframe \<Rightarrow> dataframe" where
  "inject_flat d = d\<lparr>cols := (cols d)(''flat'' \<mapsto> StrCol (replicate (nrows d) ''flat''))\<rparr>"

text \<open>Line 272, \<^verbatim>\<open>np.sort(data[c].unique())\<close>: the distinct values of the column, sorted as
  the values they are. Line 273, \<^verbatim>\<open>str(lvl)\<close> of each.\<close>

definition sorted_unique :: "dataframe \<Rightarrow> string \<Rightarrow> py_error + column" where
  "sorted_unique d c =
     bind_e (py_lookup (cols d) c)
       (\<lambda>col. Inr (case col of
                      IntCol xs \<Rightarrow> IntCol (sort (remdups xs))
                    | StrCol xs \<Rightarrow> StrCol (sort (remdups xs))))"

definition str_levels :: "column \<Rightarrow> string list" where
  "str_levels col = (case col of IntCol xs \<Rightarrow> map str_int xs | StrCol xs \<Rightarrow> xs)"

text \<open>Lines 262 to 277: the factors, their levels and the number of level combinations.\<close>

definition set_condition_levels ::
  "depends \<Rightarrow> ('f, 'o) model \<Rightarrow> py_error + ('f, 'o) model" where
  "set_condition_levels d s =
     bind_e (np_hstack (map (dep_factors \<circ> snd) d)) (\<lambda>referenced.
       let cs = np_unique referenced;
           flat = (''flat'' \<in> set cs);
           dat = (if flat then inject_flat (data s) else data s)
       in
         bind_e (map_e (sorted_unique dat) cs) (\<lambda>sorted_cols.
           let clevels = map str_levels sorted_cols;
               sizes = map (int \<circ> length) clevels
           in
             bind_e (py_getitem (np_cumprod sizes) (- 1)) (\<lambda>total.
               Inr (s\<lparr>depends_on := d,
                      conds := cs,
                      nconds := int (length cs),
                      is_flat := flat,
                      data := dat,
                      clmap := zip cs clevels,
                      cond_matrix := sizes,
                      nlevels := total,
                      groups := ''idx'' # cs\<rparr>))))"

definition set_conditions ::
  "('f, 'o) collaborators \<Rightarrow> depends \<Rightarrow> ('f, 'o) model \<Rightarrow> py_error + ('f, 'o) model" where
  "set_conditions ext d s =
     bind_e (set_condition_levels d s) (\<lambda>s.
     bind_e (format_pcmap s) (\<lambda>s.
     bind_e (if ssdDF s \<noteq> None then set_ssd_info ext s else Inr s) (\<lambda>s.
       if fitparams s \<noteq> None then
         (let s = generate_model_id None s
          in set_fitparams_plain ext None
               [(''nlevels'', IntV (nlevels s)),
                (''clmap'', LevelsV (clmap s)),
                (''model_id'', StrV (model_id s))] s)
       else Inr s)))"

section \<open>\<^verbatim>\<open>RADDCore.__make_dataframes__\<close>, \<^verbatim>\<open>__prepare_fit__\<close> and \<^verbatim>\<open>update_quantiles\<close>\<close>






section \<open>\<^verbatim>\<open>utils.extract_popt_fitinfo\<close>\<close>

text \<open>The names bound at module level in \<^verbatim>\<open>radd/tools/utils.py\<close> (imports, classes and
  functions), with the kind of object each is bound to. None of these objects is iterable.\<close>

datatype global_obj = Module | Function | Class | Feature

definition utils_globals :: "(string \<times> global_obj) list" where
  "utils_globals =
     [(''division'', Feature), (''sys'', Module), (''listvalues'', Function),
      (''deepcopy'', Function), (''pd'', Module), (''np'', Module), (''plt'', Module),
      (''sns'', Module), (''colors'', Module), (''messages'', Module), (''analyze'', Module),
      (''bootstrap_data'', Function), (''theta'', Module), (''display'', Function),
      (''Latex'', Class), (''IntProgress'', Class), (''HTML'', Class), (''Box'', Class),
      (''pandaify_results'', Function), (''PBinJ'', Class), (''BasinCallback'', Class),
      (''GradientCallback'', Class), (''MyFloat'', Class), (''rwr'', Function),
      (''resample_data'', Function), (''extract_popt_fitinfo'', Function),
      (''params_io'', Function), (''fits_io'', Function)]"

text \<open>Reading a name that is not local to the function: the module's globals, else NameError
  (no builtin is called \<^verbatim>\<open>inits\<close>).\<close>

definition lookup_global :: "string \<Rightarrow> py_error + global_obj" where
  "lookup_global name =
     (case map_of utils_globals name of None \<Rightarrow> Inl NameError | Some obj \<Rightarrow> Inr obj)"

definition list_of_global :: "global_obj \<Rightarrow> py_error + string list" where
  "list_of_global obj =
     (case obj of
        Module \<Rightarrow> Inl TypeError
      | Function \<Rightarrow> Inl TypeError
      | Class \<Rightarrow> Inl TypeError
      | Feature \<Rightarrow> Inl TypeError)"

text \<open>\<^verbatim>\<open>dict(deepcopy(x))\<close> and \<^verbatim>\<open>list(x)\<close> of an argument that is \<^verbatim>\<open>None\<close> (the default)
  or a dict.\<close>

definition dict_of_arg :: "('k \<times> 'v) list option \<Rightarrow> py_error + ('k \<rightharpoonup> 'v)" where
  "dict_of_arg a = (case a of None \<Rightarrow> Inl TypeError | Some d \<Rightarrow> Inr (map_of d))"

definition keys_of_arg :: "('k \<times> 'v) list option \<Rightarrow> py_error + 'k list" where
  "keys_of_arg a = (case a of None \<Rightarrow> Inl TypeError | Some d \<Rightarrow> Inr (map fst d))"

datatype popt_val = Scalar fpval | Vector "fpval list"

definition extract_popt_fitinfo ::
  "kwargs option \<Rightarrow> string list option \<Rightarrow> levelmap option \<Rightarrow> py_error + (string \<times> popt_val) list" where
  "extract_popt_fitinfo finfo plist pc =
     bind_e (dict_of_arg finfo) (\<lambda>finfo.
     bind_e (lookup_global ''inits'') (\<lambda>inits_obj.
     bind_e (list_of_global inits_obj) (\<lambda>plist.
     bind_e (map_e (\<lambda>pkey. bind_e (py_lookup finfo pkey) (\<lambda>v. Inr (pkey, Scalar v))) plist) (\<lambda>popt.
     bind_e (keys_of_arg pc) (\<lambda>pkeys.
     bind_e (dict_of_arg pc) (\<lambda>pcd.
       bind_e
         (map_e (\<lambda>pkey.
            bind_e (py_lookup pcd pkey) (\<lambda>names.
            bind_e (map_e (py_lookup finfo) names) (\<lambda>vals. Inr (pkey, Vector vals)))) pkeys)
         (\<lambda>vectors. Inr (fold (\<lambda>(k, v). AList.update k v) vectors popt))))))))"

section \<open>The specification's reading of the parameter-condition map\<close>




section \<open>Example objects\<close>

text \<open>An object as \<^verbatim>\<open>__init__\<close> has it before it calls \<^verbatim>\<open>set_conditions\<close>: default
  arguments, an empty trial table, no handler, no \<^verbatim>\<open>fitparams\<close>, no optimizer. The
  examples below are this object with some attributes set.\<close>

definition blank_model :: "(unit, unit) model" where
  "blank_model =
     \<lparr>kind = ''xdpm'', fit_on = ''average'', learn = False, ssdelay = False,
      quantiles = ArrV [1/10, 2/10, 3/10, 4/10, 5/10, 6/10, 7/10, 8/10, 9/10],
      tb = 68 / 100,
      data = \<lparr>nrows = 0, cols = Map.empty\<rparr>,
      idx = [], nidx = 0, inits = NoneV,
      depends_on = [(''all'', Factor ''flat'')],
      conds = [], nconds = 0, is_flat = False, clmap = [], cond_matrix = [], nlevels = 0,
      groups = [], pcmap = [], model_id = [],
      handler = None, observed = [], observed_flat = [], cond_wts = [], flat_wts = [],
      ssdDF = None, ssd = None, fitparams = None, basinparams = None, opt = None\<rparr>"

section \<open>The specification's reading of the condition set\<close>

text \<open>The factors a dependency specification references.\<close>

definition referenced_factors :: "depends \<Rightarrow> string list" where
  "referenced_factors d = concat (map (dep_factors \<circ> snd) d)"

text \<open>The number of distinct values a factor takes in the data; the literal factor
  \<^verbatim>\<open>flat\<close> counts as one level.\<close>

definition distinct_count :: "column \<Rightarrow> nat" where
  "distinct_count col = (case col of IntCol xs \<Rightarrow> card (set xs) | StrCol xs \<Rightarrow> card (set xs))"

definition factor_cardinality :: "dataframe \<Rightarrow> string \<Rightarrow> nat" where
  "factor_cardinality dat c =
     (if c = ''flat'' then 1
      else case cols dat c of None \<Rightarrow> 0 | Some col \<Rightarrow> distinct_count col)"

text \<open>The specification (sections 4.1 and 8): \<^verbatim>\<open>nlevels\<close> is the product of all
  referenced factors' cardinalities, \<^verbatim>\<open>cond_matrix\<close> the cardinality of every factor (the
  factors in the order of \<^verbatim>\<open>conds\<close>, sorted by name).\<close>

definition spec_nlevels :: "depends \<Rightarrow> dataframe \<Rightarrow> int" where
  "spec_nlevels d dat = (\<Prod>c \<in> set (referenced_factors d). int (factor_cardinality dat c))"


text \<open>What the code stores as the levels of a column: the distinct values sorted as the
  values they are (integers by value, strings by code point), then written as strings.\<close>

definition native_levels :: "column \<Rightarrow> string list" where
  "native_levels col =
     (case col of
        IntCol xs \<Rightarrow> map str_int (sort (remdups xs))
      | StrCol xs \<Rightarrow> sort (remdups xs))"

text \<open>The trial table as \<^verbatim>\<open>set_conditions\<close> reads it: with the column \<^verbatim>\<open>flat\<close> when the
  specification references that factor.\<close>

definition conditions_data :: "depends \<Rightarrow> dataframe \<Rightarrow> dataframe" where
  "conditions_data d dat = (if ''flat'' \<in> set (referenced_factors d) then inject_flat dat else dat)"

definition levels_in :: "dataframe \<Rightarrow> string \<Rightarrow> string list" where
  "levels_in dat c = (case cols dat c of None \<Rightarrow> [] | Some col \<Rightarrow> native_levels col)"

text \<open>The attributes lines 262 to 277 assign.\<close>

definition same_conditions :: "('f, 'o) model \<Rightarrow> ('f, 'o) model \<Rightarrow> bool" where
  "same_conditions s s' \<longleftrightarrow>
     depends_on s' = depends_on s \<and> conds s' = conds s \<and> nconds s' = nconds s \<and>
     is_flat s' = is_flat s \<and> data s' = data s \<and> clmap s' = clmap s \<and>
     cond_matrix s' = cond_matrix s \<and> nlevels s' = nlevels s \<and> groups s' = groups s"

text \<open>Collaborators for the examples: the group-by yields one row of three mean delays per
  condition level (two levels), the handler hands back the vectors the object already has,
  and the optimizer is a unit value.\<close>

definition example_ssd :: matrix where
  "example_ssd =
     \<lparr>shape0 = 2, shape1 = 3,
      mrows = [[Num 200, Num 250, Num 300], [Num 220, Num 270, Num 320]]\<rparr>"

definition example_collaborators :: "(unit, unit) collaborators" where
  "example_collaborators =
     \<lparr>groupby_mean_all = (\<lambda>df cs. Inr example_ssd),
      groupby_mean_subject = (\<lambda>df subject cs. Inr example_ssd),
      data_handler = (\<lambda>m. Inr \<lparr>hd_pcmap = pcmap m, hd_ssd_method = NoneV,
                               hd_observed = observed m, hd_observed_flat = observed_flat m,
                               hd_cond_wts = cond_wts m, hd_flat_wts = flat_wts m,
                               hd_ssdDF = None\<rparr>),
      default_inits = (\<lambda>k d l sd. InitsV []),
      new_optimizer = (\<lambda>fp bp ini. ()),
      optimizer_update_fit = (\<lambda>fp ini ob. ()),
      optimizer_update_basin = (\<lambda>bp ob. ())\<rparr>"

text \<open>The scenario of the specification, cut down to one trial per cell: two subjects, the
  factor \<^verbatim>\<open>condition\<close> with the values \<^verbatim>\<open>easy\<close> and \<^verbatim>\<open>hard\<close>, and a numeric factor
  \<^verbatim>\<open>block\<close> with the values 2 and 10.\<close>

definition scenario_model :: "(unit, unit) model" where
  "scenario_model =
     blank_model
       \<lparr>data := \<lparr>nrows = 4,
                 cols = [''idx'' \<mapsto> IntCol [1, 1, 2, 2],
                         ''condition'' \<mapsto> StrCol [''hard'', ''easy'', ''hard'', ''easy''],
                         ''block'' \<mapsto> IntCol [10, 2, 2, 10]]\<rparr>,
        idx := [IntId 1, IntId 2],
        nidx := 2\<rparr>"

text \<open>The column \<^verbatim>\<open>np.sort(data[c].unique())\<close> yields for a factor the table holds.\<close>

definition sorted_column :: "dataframe \<Rightarrow> string \<Rightarrow> column" where
  "sorted_column dat c =
     (case cols dat c of
        None \<Rightarrow> StrCol []
      | Some (IntCol xs) \<Rightarrow> IntCol (sort (remdups xs))
      | Some (StrCol xs) \<Rightarrow> StrCol (sort (remdups xs)))"





text \<open>The scenario after construction, fitting subjects: one conditional and one flat vector
  (and weights) per subject, a stop-signal-delay table, and a \<^verbatim>\<open>fitparams\<close> record whose
  active index is the second subject.\<close>

definition active_model :: "(unit, unit) model" where
  "active_model =
     scenario_model
       \<lparr>fit_on := ''subjects'',
        observed := [[8 / 10, 3 / 10], [9 / 10, 4 / 10]],
        observed_flat := [[85 / 100], [65 / 100]],
        cond_wts := [[1, 2], [3, 4]],
        flat_wts := [[1], [2]],
        ssdDF := Some (),
        fitparams := Some [''ix'' \<mapsto> IntV 1, ''ntrials'' \<mapsto> IntV 20000,
                           ''nlevels'' \<mapsto> IntV 1, ''inits'' \<mapsto> NoneV]\<rparr>"

text \<open>The attributes of an object other than \<^verbatim>\<open>fitparams\<close>, the optimizer and
  \<^verbatim>\<open>self.ssd\<close> (which no method reads).\<close>

definition frame :: "('f, 'o) model \<Rightarrow> ('f, 'o) model" where
  "frame s = s\<lparr>fitparams := None, opt := None, ssd := None\<rparr>"



section \<open>Facts about the helpers\<close>

lemma bind_e_Inl [simp]: "bind_e (Inl e) f = Inl e"
  by (simp add: bind_e_def)

lemma bind_e_Inr [simp]: "bind_e (Inr x) f = f x"
  by (simp add: bind_e_def)

lemma bind_e_eq_Inr: "bind_e m f = Inr y \<longleftrightarrow> (\<exists>x. m = Inr x \<and> f x = Inr y)"
  by (cases m) simp_all

lemma product_step_Nil [simp]: "product_step pool [] = []"
  by (simp add: product_step_def)

lemma product_step_Cons [simp]:
  "product_step pool (x # result) = map (\<lambda>y. x @ [y]) pool @ product_step pool result"
  by (simp add: product_step_def)



section \<open>Claims about \<^verbatim>\<open>utils.extract_popt_fitinfo\<close>\<close>

text \<open>
  Claim C10 says that \<^verbatim>\<open>extract_popt_fitinfo\<close> raises NameError for every combination of
  arguments. The first statement of the body, \<^verbatim>\<open>dict(deepcopy(finfo))\<close>, runs before the
  unbound name \<^verbatim>\<open>inits\<close> is read: with \<^verbatim>\<open>finfo=None\<close>, the default, it raises TypeError.
  Counterexample: the call with all three defaults does not raise NameError.
\<close>

theorem extract_popt_fitinfo_default_not_NameError:
  "extract_popt_fitinfo None None None = Inl TypeError \<and>
   extract_popt_fitinfo None None None \<noteq> Inl NameError"
  by (simp add: extract_popt_fitinfo_def dict_of_arg_def)

text \<open>
  Claim C10 as amended: \<^verbatim>\<open>extract_popt_fitinfo\<close> never returns a \<^verbatim>\<open>popt\<close> dictionary; it
  raises NameError (the name \<^verbatim>\<open>inits\<close> is bound neither in the function nor in the module)
  whenever \<^verbatim>\<open>finfo\<close> is a dict, whatever \<^verbatim>\<open>plist\<close> and \<^verbatim>\<open>pcmap\<close> are, and TypeError
  when \<^verbatim>\<open>finfo\<close> is \<^verbatim>\<open>None\<close>.
\<close>

theorem extract_popt_fitinfo_raises:
  "extract_popt_fitinfo finfo plist pc =
     (case finfo of None \<Rightarrow> Inl TypeError | Some d \<Rightarrow> Inl NameError)"
  by (simp add: extract_popt_fitinfo_def dict_of_arg_def lookup_global_def utils_globals_def
      split: option.splits)





section \<open>Claims about \<^verbatim>\<open>RADDCore.__format_pcmap__\<close>\<close>



section \<open>Facts about \<^verbatim>\<open>set_conditions\<close>\<close>

lemma int64_mult_left: "int64 (int64 a * b) = int64 (a * b)"
  unfolding int64_def
  by (metis signed_take_bit_mult signed_take_bit_signed_take_bit min.idem)

lemma last_cumprod_from:
  "xs \<noteq> [] \<Longrightarrow> last (cumprod_from acc xs) = int64 (acc * prod_list xs)"
proof (induction xs arbitrary: acc)
  case Nil
  then show ?case by simp
next
  case (Cons x xs)
  show ?case
  proof (cases xs)
    case Nil
    then show ?thesis by simp
  next
    case (Cons y ys)
    then have "cumprod_from (int64 (acc * x)) xs \<noteq> []" by simp
    moreover have "last (cumprod_from (int64 (acc * x)) xs) = int64 (int64 (acc * x) * prod_list xs)"
      using Cons.IH Cons by simp
    ultimately show ?thesis
      by (simp add: int64_mult_left mult.assoc)
  qed
qed

lemma cumprod_from_Nil_iff [simp]: "cumprod_from acc xs = [] \<longleftrightarrow> xs = []"
  by (cases xs) simp_all

lemma py_getitem_last: "py_getitem xs (- 1) = (if xs = [] then Inl IndexError else Inr (last xs))"
proof (cases xs)
  case Nil
  then show ?thesis by (simp add: py_getitem_def)
next
  case (Cons y ys)
  have "nat (int (length ys) + 1 + - 1) = length ys" by simp
  with Cons show ?thesis
    by (simp add: py_getitem_def last_conv_nth del: last.simps)
qed

lemma np_cumprod_last:
  "py_getitem (np_cumprod xs) (- 1) = (if xs = [] then Inl IndexError else Inr (int64 (prod_list xs)))"
  by (simp add: py_getitem_last np_cumprod_def last_cumprod_from)


text \<open>Beyond that bound the product wraps: 64 factors of two levels each give
  \<^verbatim>\<open>np.cumprod(cond_matrix)[-1] == 0\<close>.\<close>

lemma np_cumprod_wraps: "py_getitem (np_cumprod (replicate 64 2)) (- 1) = Inr 0"
proof -
  have "prod_list (replicate 64 (2::int)) = 2 ^ 64"
    by (simp add: prod_list_replicate)
  then show ?thesis
    by (simp add: np_cumprod_last int64_def signed_take_bit_eq_take_bit_minus bit_simps
        take_bit_eq_mod)
qed

lemma map_e_all_Inr: "(\<And>x. x \<in> set xs \<Longrightarrow> f x = Inr (g x)) \<Longrightarrow> map_e f xs = Inr (map g xs)"
  by (induction xs) simp_all

lemma map_e_first_error:
  assumes "\<And>x. x \<in> set xs \<Longrightarrow> f x = Inl e \<or> (\<exists>y. f x = Inr y)"
    and "\<exists>x \<in> set xs. f x = Inl e"
  shows "map_e f xs = Inl e"
  using assms
proof (induction xs)
  case Nil
  then show ?case by simp
next
  case (Cons x xs)
  show ?case
  proof (cases "f x")
    case (Inl e')
    with Cons.prems(1) [of x] show ?thesis by auto
  next
    case (Inr y)
    with Cons.prems have "\<exists>x \<in> set xs. f x = Inl e" by auto
    with Cons have "map_e f xs = Inl e" by auto
    with Inr show ?thesis by simp
  qed
qed

lemma np_unique_set [simp]: "set (np_unique xs) = set xs"
  by (simp add: np_unique_def)

lemma np_unique_distinct [simp]: "distinct (np_unique xs)"
  by (simp add: np_unique_def)

lemma np_unique_Nil_iff [simp]: "np_unique xs = [] \<longleftrightarrow> xs = []"
  by (metis np_unique_set set_empty)

lemma sorted_unique_levels:
  "cols dat c = Some col \<Longrightarrow>
   \<exists>col'. sorted_unique dat c = Inr col' \<and> str_levels col' = native_levels col"
  by (cases col) (simp_all add: sorted_unique_def py_lookup_def str_levels_def native_levels_def)

lemma sorted_unique_missing: "cols dat c = None \<Longrightarrow> sorted_unique dat c = Inl KeyError"
  by (simp add: sorted_unique_def py_lookup_def)

lemma sorted_unique_present:
  "cols dat c \<noteq> None \<Longrightarrow> sorted_unique dat c = Inr (sorted_column dat c)"
  by (auto simp: sorted_unique_def py_lookup_def sorted_column_def split: column.splits)

lemma str_levels_sorted_column: "str_levels (sorted_column dat c) = levels_in dat c"
  by (simp add: sorted_column_def levels_in_def str_levels_def native_levels_def
      split: option.splits column.splits)

lemma conditions_data_present:
  assumes "\<forall>c \<in> set (referenced_factors d). c \<noteq> ''flat'' \<longrightarrow> cols dat c \<noteq> None"
    and "c \<in> set (referenced_factors d)"
  shows "cols (conditions_data d dat) c \<noteq> None"
  using assms by (auto simp: conditions_data_def inject_flat_def)

lemma set_condition_levels_result:
  assumes present: "\<forall>c \<in> set (referenced_factors d). c \<noteq> ''flat'' \<longrightarrow> cols (data s) c \<noteq> None"
    and some: "referenced_factors d \<noteq> []"
  shows "set_condition_levels d s =
     Inr (s\<lparr>depends_on := d,
            conds := np_unique (referenced_factors d),
            nconds := int (length (np_unique (referenced_factors d))),
            is_flat := (''flat'' \<in> set (referenced_factors d)),
            data := conditions_data d (data s),
            clmap := zip (np_unique (referenced_factors d))
                       (map (levels_in (conditions_data d (data s))) (np_unique (referenced_factors d))),
            cond_matrix := map (\<lambda>c. int (length (levels_in (conditions_data d (data s)) c)))
                             (np_unique (referenced_factors d)),
            nlevels := int64 (prod_list (map (\<lambda>c. int (length (levels_in (conditions_data d (data s)) c)))
                             (np_unique (referenced_factors d)))),
            groups := ''idx'' # np_unique (referenced_factors d)\<rparr>)"
proof -
  let ?cs = "np_unique (referenced_factors d)"
  let ?dat = "conditions_data d (data s)"
  from some have d: "map (dep_factors \<circ> snd) d \<noteq> []"
    by (auto simp: referenced_factors_def)
  have cols: "map_e (sorted_unique ?dat) ?cs = Inr (map (sorted_column ?dat) ?cs)"
    by (rule map_e_all_Inr) (simp add: sorted_unique_present conditions_data_present [OF present])
  have dat: "(if ''flat'' \<in> set (referenced_factors d) then inject_flat (data s) else data s) = ?dat"
    by (simp add: conditions_data_def)
  have c1: "str_levels \<circ> sorted_column ?dat = levels_in ?dat"
    by (simp add: fun_eq_iff str_levels_sorted_column)
  have c2: "int \<circ> length \<circ> str_levels \<circ> sorted_column ?dat = (\<lambda>c. int (length (levels_in ?dat c)))"
    by (simp add: fun_eq_iff str_levels_sorted_column)
  have c3: "int \<circ> length \<circ> (str_levels \<circ> sorted_column ?dat) = (\<lambda>c. int (length (levels_in ?dat c)))"
    by (simp add: fun_eq_iff str_levels_sorted_column)
  have c4: "int \<circ> length \<circ> levels_in ?dat = (\<lambda>c. int (length (levels_in ?dat c)))"
    by (simp add: fun_eq_iff)
  show ?thesis
    unfolding set_condition_levels_def np_hstack_def
    using d some
    by (simp add: referenced_factors_def [symmetric] Let_def dat cols np_cumprod_last c1 c2 c3 c4)
qed

lemma same_conditions_refl [simp]: "same_conditions s s"
  by (simp add: same_conditions_def)

lemma same_conditions_trans: "same_conditions s t \<Longrightarrow> same_conditions t u \<Longrightarrow> same_conditions s u"
  by (simp add: same_conditions_def)

lemma fp_set_same: "fp_set k v s = Inr s' \<Longrightarrow> same_conditions s s'"
  by (auto simp: fp_set_def same_conditions_def split: option.splits)

lemma format_pcmap_same: "format_pcmap s = Inr s' \<Longrightarrow> same_conditions s s'"
  by (auto simp: format_pcmap_def bind_e_eq_Inr same_conditions_def)

lemma generate_model_id_same [simp]: "same_conditions s (generate_model_id a s)"
  by (simp add: generate_model_id_def same_conditions_def Let_def)

lemma ssd_matrix_same: "ssd_matrix ext df s = Inr (m, s') \<Longrightarrow> same_conditions s s'"
  by (auto simp: ssd_matrix_def bind_e_eq_Inr same_conditions_def split: if_splits)

lemma set_ssd_info_same: "set_ssd_info ext s = Inr s' \<Longrightarrow> same_conditions s s'"
  unfolding set_ssd_info_def
  by (auto simp: bind_e_eq_Inr Let_def split: option.splits if_splits
      dest!: ssd_matrix_same fp_set_same intro: same_conditions_trans)

lemma update_data_same: "update_data nl s = Inr s' \<Longrightarrow> same_conditions s s'"
  unfolding update_data_def
  by (auto simp: bind_e_eq_Inr split: if_splits dest!: fp_set_same intro: same_conditions_trans)

lemma fill_fitparams_same: "fill_fitparams kw s = Inr s' \<Longrightarrow> same_conditions s s'"
  by (auto simp: fill_fitparams_def bind_e_eq_Inr same_conditions_def split: option.splits)

lemma apply_force_same: "apply_force force s = Inr s' \<Longrightarrow> same_conditions s s'"
  by (auto simp: apply_force_def split: if_splits dest: fp_set_same)

lemma finish_fitparams_same:
  assumes "finish_fitparams ext s = Inr s'"
  shows "same_conditions s s'"
proof -
  from assms obtain nl s1 s2 where
    u: "update_data nl s = Inr s1" and
    i: "(if ssdDF s1 \<noteq> None then set_ssd_info ext s1 else Inr s1) = Inr s2" and
    ob: "(case opt s2 of
            None \<Rightarrow> Inr s2
          | Some ob \<Rightarrow>
              bind_e (fp_attr s2 ''inits'') (\<lambda>ini.
                case fitparams s2 of
                  None \<Rightarrow> Inl AttributeError
                | Some fp \<Rightarrow> Inr (s2\<lparr>opt := Some (optimizer_update_fit ext fp ini ob)\<rparr>))) = Inr s'"
    unfolding finish_fitparams_def bind_e_eq_Inr by blast
  have "same_conditions s s1" using u by (rule update_data_same)
  moreover have "same_conditions s1 s2"
    using i by (cases "ssdDF s1 = None") (auto dest: set_ssd_info_same)
  moreover have "same_conditions s2 s'"
  proof (cases "opt s2")
    case None
    with ob show ?thesis by simp
  next
    case (Some b)
    with ob obtain fp ini where "s' = s2\<lparr>opt := Some (optimizer_update_fit ext fp ini b)\<rparr>"
      by (auto simp: bind_e_eq_Inr split: option.splits)
    then show ?thesis by (simp add: same_conditions_def)
  qed
  ultimately show ?thesis by (blast intro: same_conditions_trans)
qed

lemma set_fitparams_plain_same: "set_fitparams_plain ext force kw s = Inr s' \<Longrightarrow> same_conditions s s'"
  unfolding set_fitparams_plain_def
  by (auto simp: bind_e_eq_Inr
      dest!: fill_fitparams_same apply_force_same finish_fitparams_same intro: same_conditions_trans)

lemma set_conditions_keeps:
  assumes "set_conditions ext d s = Inr s'"
  shows "\<exists>s1. set_condition_levels d s = Inr s1 \<and> same_conditions s1 s'"
proof -
  from assms obtain s1 s2 s3 where
    s1: "set_condition_levels d s = Inr s1" and
    s2: "format_pcmap s1 = Inr s2" and
    s3: "(if ssdDF s2 \<noteq> None then set_ssd_info ext s2 else Inr s2) = Inr s3" and
    s': "(if fitparams s3 \<noteq> None then
           (let s = generate_model_id None s3
            in set_fitparams_plain ext None
                 [(''nlevels'', IntV (nlevels s)),
                  (''clmap'', LevelsV (clmap s)),
                  (''model_id'', StrV (model_id s))] s)
          else Inr s3) = Inr s'"
    unfolding set_conditions_def bind_e_eq_Inr by blast
  have "same_conditions s1 s2" using s2 by (rule format_pcmap_same)
  moreover have "same_conditions s2 s3"
    using s3 by (auto split: if_splits dest: set_ssd_info_same)
  moreover have "same_conditions s3 s'"
    using s' by (auto simp: Let_def split: if_splits
        dest!: set_fitparams_plain_same intro: same_conditions_trans [OF generate_model_id_same])
  ultimately show ?thesis using s1 by (blast intro: same_conditions_trans)
qed

lemma inject_flat_cols:
  "cols (inject_flat dat) c = (if c = ''flat'' then Some (StrCol (replicate (nrows dat) ''flat'')) else cols dat c)"
  by (simp add: inject_flat_def)





lemma set_conditions_first_call:
  assumes "ssdDF s = None" and "fitparams s = None"
  shows "set_conditions ext d s = bind_e (set_condition_levels d s) format_pcmap"
proof (cases "set_condition_levels d s")
  case (Inl e)
  then show ?thesis by (simp add: set_conditions_def)
next
  case (Inr s1)
  then have s1: "ssdDF s1 = None \<and> fitparams s1 = None"
    using assms
    by (auto simp: set_condition_levels_def bind_e_eq_Inr Let_def)
  show ?thesis
  proof (cases "format_pcmap s1")
    case (Inl e)
    with Inr show ?thesis by (simp add: set_conditions_def)
  next
    case r: (Inr s2)
    with s1 have "ssdDF s2 = None \<and> fitparams s2 = None"
      by (auto simp: format_pcmap_def bind_e_eq_Inr)
    with Inr r show ?thesis by (simp add: set_conditions_def)
  qed
qed


section \<open>Claims about \<^verbatim>\<open>RADDCore.set_conditions\<close>\<close>


text \<open>
  Claim C3 as amended: for every condition factor, the levels stored in \<^verbatim>\<open>clmap\<close> are the
  factor's distinct data values sorted ascending as the values they are (line 272) and then
  coerced to strings (line 273): integers in numeric order, strings in string order. For every
  \<^verbatim>\<open>depends_on\<close> that references at least one factor and only factors present in the data
  (or \<^verbatim>\<open>flat\<close>), lines 262 to 277 run without an exception, and the object they leave, as
  well as any object the whole of \<^verbatim>\<open>set_conditions\<close> returns, has \<^verbatim>\<open>conds\<close> equal to the
  sorted distinct factor names and, for each of them, these levels of its column.
\<close>

theorem set_conditions_levels_order:
  assumes present: "\<forall>c \<in> set (referenced_factors d). c \<noteq> ''flat'' \<longrightarrow> cols (data s) c \<noteq> None"
    and some: "referenced_factors d \<noteq> []"
  shows "(\<exists>s1. set_condition_levels d s = Inr s1) \<and>
         (\<forall>s'. set_condition_levels d s = Inr s' \<or> set_conditions ext d s = Inr s' \<longrightarrow>
            conds s' = sort (remdups (referenced_factors d)) \<and>
            data s' = conditions_data d (data s) \<and>
            (\<forall>c \<in> set (conds s').
               \<exists>col. cols (data s') c = Some col \<and>
                 map_of (clmap s') c =
                   Some (case col of
                           IntCol xs \<Rightarrow> map str_int (sort (remdups xs))
                         | StrCol xs \<Rightarrow> sort (remdups xs))))"
proof -
  let ?cs = "np_unique (referenced_factors d)"
  let ?dat = "conditions_data d (data s)"
  let ?P = "\<lambda>s'. conds s' = sort (remdups (referenced_factors d)) \<and>
            data s' = conditions_data d (data s) \<and>
            (\<forall>c \<in> set (conds s').
               \<exists>col. cols (data s') c = Some col \<and>
                 map_of (clmap s') c =
                   Some (case col of
                           IntCol xs \<Rightarrow> map str_int (sort (remdups xs))
                         | StrCol xs \<Rightarrow> sort (remdups xs)))"
  obtain s1 where s1: "set_condition_levels d s = Inr s1"
    and c1: "conds s1 = ?cs" and d1: "data s1 = ?dat"
    and l1: "clmap s1 = zip ?cs (map (levels_in ?dat) ?cs)"
    using set_condition_levels_result [OF present some] by simp
  have P1: "?P s1"
  proof (intro conjI ballI)
    show "conds s1 = sort (remdups (referenced_factors d))"
      by (simp add: c1 np_unique_def)
  next
    show "data s1 = conditions_data d (data s)" by (rule d1)
  next
    fix c assume "c \<in> set (conds s1)"
    then have c: "c \<in> set (referenced_factors d)" by (simp add: c1)
    then obtain col where col: "cols ?dat c = Some col"
      using conditions_data_present [OF present c] by auto
    have "map_of (clmap s1) c = Some (levels_in ?dat c)"
      using c by (simp add: l1 map_of_zip_map)
    with col show "\<exists>col. cols (data s1) c = Some col \<and>
                 map_of (clmap s1) c =
                   Some (case col of
                           IntCol xs \<Rightarrow> map str_int (sort (remdups xs))
                         | StrCol xs \<Rightarrow> sort (remdups xs))"
      by (simp add: d1 levels_in_def native_levels_def)
  qed
  have "?P s'" if "set_condition_levels d s = Inr s' \<or> set_conditions ext d s = Inr s'" for s'
  proof -
    from that s1 have "same_conditions s1 s'"
      using set_conditions_keeps [of ext d s s'] by auto
    then have eqs: "conds s' = conds s1" "data s' = data s1" "clmap s' = clmap s1"
      by (simp_all add: same_conditions_def)
    show ?thesis unfolding eqs by (rule P1)
  qed
  with s1 show ?thesis by blast
qed

text \<open>
  Claim C5 as amended: \<^verbatim>\<open>set_conditions\<close> raises ValueError when \<^verbatim>\<open>depends_on\<close> is an
  empty mapping, and KeyError when \<^verbatim>\<open>depends_on\<close> is not empty and references a factor
  other than \<^verbatim>\<open>flat\<close> that is no column of the data. No configuration is corrected
  silently; the exception is not a \<^verbatim>\<open>ConfigurationError\<close>.
\<close>

theorem set_conditions_errors:
  "(d = [] \<longrightarrow> set_conditions ext d s = Inl ValueError) \<and>
   (d \<noteq> [] \<and> (\<exists>c \<in> set (referenced_factors d). c \<noteq> ''flat'' \<and> cols (data s) c = None) \<longrightarrow>
      set_conditions ext d s = Inl KeyError)"
proof (intro conjI impI)
  assume "d = []"
  then show "set_conditions ext d s = Inl ValueError"
    by (simp add: set_conditions_def set_condition_levels_def np_hstack_def)
next
  assume a: "d \<noteq> [] \<and> (\<exists>c \<in> set (referenced_factors d). c \<noteq> ''flat'' \<and> cols (data s) c = None)"
  let ?cs = "np_unique (referenced_factors d)"
  let ?dat = "conditions_data d (data s)"
  from a obtain c where c: "c \<in> set ?cs" "cols ?dat c = None"
    by (auto simp: conditions_data_def inject_flat_cols)
  have "map_e (sorted_unique ?dat) ?cs = Inl KeyError"
  proof (rule map_e_first_error)
    fix x
    show "sorted_unique ?dat x = Inl KeyError \<or> (\<exists>y. sorted_unique ?dat x = Inr y)"
      by (cases "cols ?dat x") (simp_all add: sorted_unique_missing sorted_unique_present)
  next
    from c show "\<exists>x \<in> set ?cs. sorted_unique ?dat x = Inl KeyError"
      by (intro bexI [of _ c]) (simp_all add: sorted_unique_missing)
  qed
  moreover have "(if ''flat'' \<in> set (referenced_factors d) then inject_flat (data s) else data s) = ?dat"
    by (simp add: conditions_data_def)
  ultimately show "set_conditions ext d s = Inl KeyError"
    using a
    by (simp add: set_conditions_def set_condition_levels_def np_hstack_def Let_def
        referenced_factors_def [symmetric])
qed

text \<open>The scenario of the specification, run: \<^verbatim>\<open>depends_on = {'v': 'condition'}\<close>.\<close>

lemma scenario_condition_run:
  "set_conditions example_collaborators [(''v'', Factor ''condition'')] scenario_model =
     Inr (scenario_model
           \<lparr>depends_on := [(''v'', Factor ''condition'')],
            conds := [''condition''], nconds := 1, is_flat := False,
            clmap := [(''condition'', [''easy'', ''hard''])],
            cond_matrix := [2], nlevels := 2, groups := [''idx'', ''condition''],
            pcmap := [(''v'', [''v_easy'', ''v_hard''])]\<rparr>)"
proof -
  have "set_condition_levels [(''v'', Factor ''condition'')] scenario_model =
     Inr (scenario_model
           \<lparr>depends_on := [(''v'', Factor ''condition'')],
            conds := [''condition''], nconds := 1, is_flat := False,
            clmap := [(''condition'', [''easy'', ''hard''])],
            cond_matrix := [2], nlevels := 2, groups := [''idx'', ''condition'']\<rparr>)"
    by (simp add: set_condition_levels_def np_hstack_def dep_factors_def np_unique_def
        sorted_unique_def py_lookup_def str_levels_def np_cumprod_def py_getitem_def int64_def Let_def
        scenario_model_def blank_model_def)
  moreover have "ssdDF scenario_model = None" "fitparams scenario_model = None"
    by (simp_all add: scenario_model_def blank_model_def)
  ultimately show ?thesis
    by (simp add: set_conditions_first_call format_pcmap_def param_clevels_def py_lookup_def
        scenario_model_def blank_model_def)
qed


text \<open>
  Claim C2 says that \<^verbatim>\<open>nlevels\<close> is the product of the referenced factors' numbers of
  distinct values, \<^verbatim>\<open>flat\<close> contributing exactly one level, for every \<^verbatim>\<open>depends_on\<close>
  whose factors are in the data. Counterexample: on a trial table without rows the injected
  column \<^verbatim>\<open>flat\<close> is empty, so the default \<^verbatim>\<open>depends_on = {'all': 'flat'}\<close> gives
  \<^verbatim>\<open>nlevels = 0\<close>, where the claim says 1.
\<close>

theorem set_conditions_nlevels_counterexample:
  "map_sum id nlevels
     (set_conditions example_collaborators [(''all'', Factor ''flat'')] blank_model) = Inr 0 \<and>
   spec_nlevels [(''all'', Factor ''flat'')] (data blank_model) = 1"
proof -
  have "set_condition_levels [(''all'', Factor ''flat'')] blank_model =
     Inr (blank_model
           \<lparr>depends_on := [(''all'', Factor ''flat'')],
            conds := [''flat''], nconds := 1, is_flat := True,
            data := inject_flat (data blank_model),
            clmap := [(''flat'', [])],
            cond_matrix := [0], nlevels := 0, groups := [''idx'', ''flat'']\<rparr>)"
    by (simp add: set_condition_levels_def np_hstack_def dep_factors_def np_unique_def
        sorted_unique_def py_lookup_def str_levels_def np_cumprod_def py_getitem_def int64_def Let_def
        inject_flat_def blank_model_def)
  moreover have "ssdDF blank_model = None" "fitparams blank_model = None"
    by (simp_all add: blank_model_def)
  ultimately have "map_sum id nlevels
     (set_conditions example_collaborators [(''all'', Factor ''flat'')] blank_model) = Inr 0"
    by (simp add: set_conditions_first_call format_pcmap_def param_clevels_def py_lookup_def
        blank_model_def)
  moreover have "spec_nlevels [(''all'', Factor ''flat'')] (data blank_model) = 1"
    by (simp add: spec_nlevels_def referenced_factors_def dep_factors_def factor_cardinality_def)
  ultimately show ?thesis by simp
qed

text \<open>Witness for C3: the string-valued factor \<^verbatim>\<open>condition\<close> of the scenario.\<close>

theorem set_conditions_levels_order_witness:
  "map_sum id (\<lambda>s. map_of (clmap s) ''condition'')
     (set_conditions example_collaborators [(''v'', Factor ''condition'')] scenario_model) =
   Inr (Some [''easy'', ''hard''])"
proof -
  let ?d = "[(''v'', Factor ''condition'')]"
  have present: "\<forall>c \<in> set (referenced_factors ?d). c \<noteq> ''flat'' \<longrightarrow> cols (data scenario_model) c \<noteq> None"
    and some: "referenced_factors ?d \<noteq> []"
    by (simp_all add: referenced_factors_def dep_factors_def scenario_model_def blank_model_def)
  obtain s' where s': "set_conditions example_collaborators ?d scenario_model = Inr s'"
    using scenario_condition_run by blast
  with set_conditions_levels_order [OF present some, of example_collaborators]
  have "data s' = conditions_data ?d (data scenario_model)"
    and "conds s' = sort (remdups (referenced_factors ?d))"
    and "\<forall>c \<in> set (conds s').
               \<exists>col. cols (data s') c = Some col \<and>
                 map_of (clmap s') c =
                   Some (case col of
                           IntCol xs \<Rightarrow> map str_int (sort (remdups xs))
                         | StrCol xs \<Rightarrow> sort (remdups xs))"
    by blast+
  then have "map_of (clmap s') ''condition'' = Some [''easy'', ''hard'']"
    by (simp add: referenced_factors_def dep_factors_def conditions_data_def
        scenario_model_def blank_model_def)
  with s' show ?thesis by simp
qed

text \<open>
  Claim C3 says that the levels are sorted ascending after the coercion to strings, also for
  numeric values. Counterexample: the factor \<^verbatim>\<open>block\<close> takes the values 2 and 10; the
  stored levels are \<^verbatim>\<open>['2', '10']\<close>, which is not ascending as strings
  (\<^verbatim>\<open>'10' < '2'\<close>).
\<close>

theorem set_conditions_levels_order_counterexample:
  "map_sum id clmap
     (set_conditions example_collaborators [(''v'', Factor ''block'')] scenario_model) =
     Inr [(''block'', [''2'', ''10''])] \<and>
   \<not> sorted [''2'', ''10''] \<and>
   sort [''2'', ''10''] = [''10'', ''2'']"
proof -
  have "set_condition_levels [(''v'', Factor ''block'')] scenario_model =
     Inr (scenario_model
           \<lparr>depends_on := [(''v'', Factor ''block'')],
            conds := [''block''], nconds := 1, is_flat := False,
            clmap := [(''block'', [''2'', ''10''])],
            cond_matrix := [2], nlevels := 2, groups := [''idx'', ''block'']\<rparr>)"
    by (simp add: set_condition_levels_def np_hstack_def dep_factors_def np_unique_def
        sorted_unique_def py_lookup_def str_levels_def np_cumprod_def py_getitem_def int64_def Let_def
        str_int_def str_nat.simps digit_char_def scenario_model_def blank_model_def)
  moreover have "ssdDF scenario_model = None" "fitparams scenario_model = None"
    by (simp_all add: scenario_model_def blank_model_def)
  ultimately have "map_sum id clmap
     (set_conditions example_collaborators [(''v'', Factor ''block'')] scenario_model) =
     Inr [(''block'', [''2'', ''10''])]"
    by (simp add: set_conditions_first_call format_pcmap_def param_clevels_def py_lookup_def
        scenario_model_def blank_model_def)
  then show ?thesis by simp
qed

text \<open>Witness for C5: an empty \<^verbatim>\<open>depends_on\<close>, and a factor \<^verbatim>\<open>speed\<close> the scenario's data
  do not have.\<close>

theorem set_conditions_errors_witness:
  "set_conditions example_collaborators [] scenario_model = Inl ValueError \<and>
   set_conditions example_collaborators [(''v'', Factor ''speed'')] scenario_model = Inl KeyError"
  using set_conditions_errors [of "[]" example_collaborators scenario_model]
    set_conditions_errors [of "[(''v'', Factor ''speed'')]" example_collaborators scenario_model]
  by (simp add: referenced_factors_def dep_factors_def scenario_model_def blank_model_def)

text \<open>
  Claim C5 says that \<^verbatim>\<open>set_conditions\<close> raises \<^verbatim>\<open>ConfigurationError\<close> when
  \<^verbatim>\<open>depends_on\<close> is empty or references a factor absent from the data's columns.
  Counterexample: neither call raises \<^verbatim>\<open>ConfigurationError\<close> (they raise ValueError and
  KeyError), and the factor \<^verbatim>\<open>flat\<close>, which is no column of the scenario's data, raises
  nothing at all.
\<close>

theorem set_conditions_errors_counterexample:
  "set_conditions example_collaborators [] scenario_model \<noteq> Inl ConfigurationError \<and>
   set_conditions example_collaborators [(''v'', Factor ''speed'')] scenario_model
     \<noteq> Inl ConfigurationError \<and>
   cols (data scenario_model) ''flat'' = None \<and>
   map_sum id is_flat
     (set_conditions example_collaborators [(''all'', Factor ''flat'')] scenario_model) = Inr True"
proof -
  have "set_conditions example_collaborators [] scenario_model = Inl ValueError"
    by (simp add: set_conditions_def set_condition_levels_def np_hstack_def)
  moreover have
    "set_conditions example_collaborators [(''v'', Factor ''speed'')] scenario_model = Inl KeyError"
    by (simp add: set_conditions_def set_condition_levels_def np_hstack_def dep_factors_def
        np_unique_def sorted_unique_def py_lookup_def Let_def scenario_model_def blank_model_def)
  moreover have "set_condition_levels [(''all'', Factor ''flat'')] scenario_model =
     Inr (scenario_model
           \<lparr>depends_on := [(''all'', Factor ''flat'')],
            conds := [''flat''], nconds := 1, is_flat := True,
            data := inject_flat (data scenario_model),
            clmap := [(''flat'', [''flat''])],
            cond_matrix := [1], nlevels := 1, groups := [''idx'', ''flat'']\<rparr>)"
    by (simp add: set_condition_levels_def np_hstack_def dep_factors_def np_unique_def
        sorted_unique_def py_lookup_def str_levels_def np_cumprod_def py_getitem_def int64_def Let_def
        inject_flat_def scenario_model_def blank_model_def numeral_eq_Suc)
  moreover have "ssdDF scenario_model = None" "fitparams scenario_model = None"
    by (simp_all add: scenario_model_def blank_model_def)
  ultimately show ?thesis
    by (simp add: set_conditions_first_call format_pcmap_def param_clevels_def py_lookup_def
        scenario_model_def blank_model_def)
qed

lemma py_getitem_nonneg: "0 \<le> i \<Longrightarrow> i < int (length xs) \<Longrightarrow> py_getitem xs i = Inr (xs ! nat i)"
  by (simp add: py_getitem_def)



section \<open>Claims about \<^verbatim>\<open>RADDCore.update_data\<close>\<close>

text \<open>
  Claim C4: for every valid active index \<^verbatim>\<open>ix\<close> (here \<open>0 \<le> ix\<close> below the length of
  every list the call reads) and every integer \<^verbatim>\<open>nlevels\<close>, \<^verbatim>\<open>update_data(nlevels)\<close>
  returns and sets \<^verbatim>\<open>fitparams['y']\<close> and \<^verbatim>\<open>fitparams['wts']\<close> to the \<^verbatim>\<open>ix\<close>'th entries
  of \<^verbatim>\<open>observed\<close> and \<^verbatim>\<open>cond_wts\<close> when \<^verbatim>\<open>nlevels > 1\<close>, of \<^verbatim>\<open>observed_flat\<close> and
  \<^verbatim>\<open>flat_wts\<close> otherwise, and \<^verbatim>\<open>fitparams['idx']\<close> to the string form of the \<^verbatim>\<open>ix\<close>'th
  subject identifier when \<^verbatim>\<open>fit_on == 'subjects'\<close>, to \<^verbatim>\<open>'avg'\<close> otherwise; nothing
  else of the object changes.
\<close>

theorem update_data_selects:
  assumes fp: "fitparams s = Some fp" and ix: "fp ''ix'' = Some (IntV i)"
    and i0: "0 \<le> i"
    and y: "i < int (length (if 1 < n then observed s else observed_flat s))"
    and w: "i < int (length (if 1 < n then cond_wts s else flat_wts s))"
    and sub: "fit_on s = ''subjects'' \<longrightarrow> i < int (length (idx s))"
  shows "update_data (IntV n) s =
     Inr (s\<lparr>fitparams := Some (fp
            (''y'' \<mapsto> ArrV ((if 1 < n then observed s else observed_flat s) ! nat i),
             ''wts'' \<mapsto> ArrV ((if 1 < n then cond_wts s else flat_wts s) ! nat i),
             ''idx'' \<mapsto> StrV (if fit_on s = ''subjects'' then str_ident (idx s ! nat i)
                                 else ''avg'')))\<rparr>)"
  using assms
  by (cases "1 < n"; cases "fit_on s = ''subjects''")
    (simp_all add: update_data_def fp_item_def py_lookup_def py_gt_one_def py_getitem_v_def
      py_index_def py_getitem_nonneg fp_set_def)

text \<open>Witness for C4: fitting subjects, active index 1, \<^verbatim>\<open>update_data(2)\<close>.\<close>

theorem update_data_selects_witness:
  "map_sum id fitparams (update_data (IntV 2) active_model) =
     Inr (Some [''ix'' \<mapsto> IntV 1, ''ntrials'' \<mapsto> IntV 20000, ''nlevels'' \<mapsto> IntV 1,
                ''inits'' \<mapsto> NoneV, ''y'' \<mapsto> ArrV [9 / 10, 4 / 10], ''wts'' \<mapsto> ArrV [3, 4],
                ''idx'' \<mapsto> StrV ''2''])"
  using update_data_selects [of active_model
      "[''ix'' \<mapsto> IntV 1, ''ntrials'' \<mapsto> IntV 20000, ''nlevels'' \<mapsto> IntV 1, ''inits'' \<mapsto> NoneV]"
      1 2]
  by (simp add: active_model_def scenario_model_def blank_model_def str_ident_def str_int_def
      str_nat.simps digit_char_def)




lemma py_int_half: "0 \<le> n \<Longrightarrow> py_int (real_of_int n / 2) = n div 2"
proof -
  assume "0 \<le> n"
  moreover have "\<lfloor>real_of_int n / real_of_int 2\<rfloor> = n div 2"
    by (rule floor_divide_of_int_eq)
  ultimately show ?thesis by (simp add: py_int_def)
qed

lemma py_int_quotient: "0 \<le> a \<Longrightarrow> 0 < b \<Longrightarrow> py_int (real_of_int a / real_of_int b) = a div b"
  by (simp add: py_int_def floor_divide_of_int_eq)

lemma ssd_matrix_fitparams: "ssd_matrix ext df s = Inr (m, s1) \<Longrightarrow> fitparams s1 = fitparams s"
  by (auto simp: ssd_matrix_def bind_e_eq_Inr split: if_splits)

section \<open>Claims about \<^verbatim>\<open>RADDCore.__set_ssd_info__\<close>\<close>

text \<open>
  Claim C6: whenever \<^verbatim>\<open>ssd_info\<close> is computed with an SSD matrix that has \<^verbatim>\<open>nssd\<close> delays
  per row (at least one), the stored stop-trial count \<^verbatim>\<open>nss\<close> is half of
  \<^verbatim>\<open>fitparams['ntrials']\<close> (\<^verbatim>\<open>int(.5 * ntrials)\<close>, the half rounded down to a whole
  number of trials), \<^verbatim>\<open>nss_per_ssd\<close> is the integer floor of \<^verbatim>\<open>nss / nssd\<close>, and when
  \<^verbatim>\<open>fitparams.nlevels == 1\<close> the matrix is first averaged over its rows into a single row.
  The trial count is a non-negative integer up to \<open>2^53\<close>, the range in which float64
  arithmetic halves and divides integers as the real arithmetic of the model does.
\<close>

theorem set_ssd_info_counts:
  assumes df: "ssdDF s = Some df"
    and m: "ssd_matrix ext df s = Inr (m, s1)"
    and fp: "fitparams s = Some fp"
    and nl: "fp ''nlevels'' = Some (IntV nl)"
    and nt: "fp ''ntrials'' = Some (IntV nt)"
    and range: "0 \<le> nt" "nt \<le> 2 ^ 53"
    and nssd: "0 < shape1 m"
  shows "set_ssd_info ext s =
     Inr (s1\<lparr>fitparams := Some (fp(''ssd_info'' \<mapsto>
            SsdInfoV (if nl = 1 then mean_axis0 m else m)
              (int (shape1 m))
              (nt div 2)
              (nt div 2 div int (shape1 m))
              (ssd_index_grid (if nl = 1 then mean_axis0 m else m))))\<rparr>)"
proof -
  have fp1: "fitparams s1 = Some fp"
    using ssd_matrix_fitparams [OF m] fp by simp
  have shape: "shape1 (mean_axis0 m) = shape1 m"
    by (simp add: mean_axis0_def)
  have half: "py_half_int (IntV nt) = Inr (nt div 2)"
    using range by (simp add: py_half_int_def py_int_half)
  have "py_int (real_of_int (nt div 2) / real_of_int (int (shape1 m))) = nt div 2 div int (shape1 m)"
    using range nssd by (intro py_int_quotient) simp_all
  then have per: "py_int (real_of_int (nt div 2) / real (shape1 m)) = nt div 2 div int (shape1 m)"
    by simp
  show ?thesis
    using nssd
    by (cases "nl = 1")
      (simp_all add: set_ssd_info_def df m fp_attr_def fp1 nl nt py_eq_one_def half per shape
        fp_set_def Let_def)
qed

text \<open>Witness for C6: three delays and \<^verbatim>\<open>ntrials = 20000\<close> give \<^verbatim>\<open>nss = 10000\<close>,
  \<^verbatim>\<open>nssd = 3\<close>, \<^verbatim>\<open>nss_per_ssd = 3333\<close>; with \<^verbatim>\<open>nlevels == 1\<close> the two rows of mean delays
  are averaged into one.\<close>

theorem set_ssd_info_counts_witness:
  "map_sum id (\<lambda>s. map_option (\<lambda>fp. fp ''ssd_info'') (fitparams s))
     (set_ssd_info example_collaborators (active_model\<lparr>fit_on := ''average''\<rparr>)) =
   Inr (Some (Some (SsdInfoV
     \<lparr>shape0 = 1, shape1 = 3, mrows = [[Num 210, Num 260, Num 310]]\<rparr> 3 10000 3333 [[0, 1, 2]])))"
proof -
  have m: "ssd_matrix example_collaborators () (active_model\<lparr>fit_on := ''average''\<rparr>) =
      Inr (example_ssd, active_model\<lparr>fit_on := ''average''\<rparr>)"
    by (simp add: ssd_matrix_def example_collaborators_def)
  have three: "[0..<3] = [0, 1, 2]"
    by (simp add: upt_rec)
  have mean: "mean_axis0 example_ssd =
      \<lparr>shape0 = 1, shape1 = 3, mrows = [[Num 210, Num 260, Num 310]]\<rparr>"
    by (simp add: mean_axis0_def example_ssd_def three np_mean_def)
  have grid: "ssd_index_grid \<lparr>shape0 = 1, shape1 = 3, mrows = [[Num 210, Num 260, Num 310]]\<rparr> = [[0, 1, 2]]"
    by (simp add: ssd_index_grid_def three)
  have "set_ssd_info example_collaborators (active_model\<lparr>fit_on := ''average''\<rparr>) =
     Inr ((active_model\<lparr>fit_on := ''average''\<rparr>)\<lparr>fitparams := Some
       ([''ix'' \<mapsto> IntV 1, ''ntrials'' \<mapsto> IntV 20000, ''nlevels'' \<mapsto> IntV 1, ''inits'' \<mapsto> NoneV]
        (''ssd_info'' \<mapsto>
            SsdInfoV (if (1::int) = 1 then mean_axis0 example_ssd else example_ssd)
              (int (shape1 example_ssd))
              (20000 div 2)
              (20000 div 2 div int (shape1 example_ssd))
              (ssd_index_grid (if (1::int) = 1 then mean_axis0 example_ssd else example_ssd))))\<rparr>)"
    by (rule set_ssd_info_counts [OF _ m])
      (simp_all add: active_model_def scenario_model_def blank_model_def example_ssd_def)
  moreover have "shape1 example_ssd = 3"
    by (simp add: example_ssd_def)
  ultimately show ?thesis
    by (simp add: mean ssd_index_grid_def three)
qed

section \<open>Facts about \<^verbatim>\<open>set_fitparams\<close>\<close>



lemma frame_fitparams_update [simp]: "frame (s\<lparr>fitparams := x\<rparr>) = frame s"
  by (simp add: frame_def)

lemma frame_opt_update [simp]: "frame (s\<lparr>opt := x\<rparr>) = frame s"
  by (simp add: frame_def)

lemma frame_ssd_update [simp]: "frame (s\<lparr>ssd := x\<rparr>) = frame s"
  by (simp add: frame_def)










section \<open>Claims about \<^verbatim>\<open>RADDCore.set_fitparams\<close>\<close>




end
